theory Spec2Isabelle
  imports Main "HOL-Library.AList"
begin

section \<open>Python values used by the session store\<close>

text \<open>
  The exceptions that the modelled code can meet. Every \<open>try/except Exception\<close> of the
  source catches all of them alike, so the model only needs to know that one was raised;
  the names are kept for the reader.
\<close>

datatype py_error =
  KeyError | TypeError | ValueError | AttributeError | OverflowError | ValidationError
  | RedisError

text \<open>Whether a computation that may raise returned a value.\<close>

fun succeeded :: "'e + 'a \<Rightarrow> bool" where
  "succeeded (Inr x) = True"
| "succeeded (Inl e) = False"

subsection \<open>datetime\<close>

text \<open>
  A naive \<open>datetime\<close> object: the seven fields Python stores. \<open>valid_datetime\<close> is the
  invariant that the constructor of the library enforces (every datetime object of a
  running program satisfies it).
\<close>

record datetime =
  year :: nat
  month :: nat
  day :: nat
  hour :: nat
  minute :: nat
  second :: nat
  microsecond :: nat

definition is_leap :: "nat \<Rightarrow> bool" where
  "is_leap y = (y mod 4 = 0 \<and> (0 < y mod 100 \<or> y mod 400 = 0))"

definition days_in_month :: "nat \<Rightarrow> nat \<Rightarrow> nat" where
  "days_in_month y m =
     (if m = 2 \<and> is_leap y then 29
      else [0, 31, 28, 31, 30, 31, 30, 31, 31, 30, 31, 30, 31] ! m)"

definition days_before_year :: "nat \<Rightarrow> nat" where
  "days_before_year y =
     (let p = y - 1 in p * 365 + p div 4 - p div 100 + p div 400)"

definition days_before_month :: "nat \<Rightarrow> nat \<Rightarrow> nat" where
  "days_before_month y m =
     [0, 0, 31, 59, 90, 120, 151, 181, 212, 243, 273, 304, 334] ! m
       + (if 2 < m \<and> is_leap y then 1 else 0)"

definition valid_datetime :: "datetime \<Rightarrow> bool" where
  "valid_datetime d =
     (1 \<le> year d \<and> year d \<le> 9999 \<and> 1 \<le> month d \<and> month d \<le> 12 \<and>
      1 \<le> day d \<and> day d \<le> days_in_month (year d) (month d) \<and>
      hour d < 24 \<and> minute d < 60 \<and> second d < 60 \<and> microsecond d < 1000000)"

text \<open>
  \<open>toordinal\<close> and the position of a datetime on the time line, in microseconds. The
  difference \<open>a - b\<close> of two naive datetimes is the timedelta of
  \<open>to_microseconds a - to_microseconds b\<close> microseconds, and timedeltas compare as
  these numbers do, so a timedelta is modelled by its number of microseconds.
\<close>

definition toordinal :: "datetime \<Rightarrow> nat" where
  "toordinal d = days_before_year (year d) + days_before_month (year d) (month d) + day d"

definition to_microseconds :: "datetime \<Rightarrow> int" where
  "to_microseconds d =
     ((int (toordinal d) * 24 + int (hour d)) * 60 + int (minute d)) * 60000000
       + int (second d) * 1000000 + int (microsecond d)"

definition datetime_sub :: "datetime \<Rightarrow> datetime \<Rightarrow> int" where
  "datetime_sub a b = to_microseconds a - to_microseconds b"

definition timedelta_seconds :: "int \<Rightarrow> int" where
  "timedelta_seconds s = s * 1000000"

text \<open>
  The constructor \<open>timedelta(seconds=s)\<close>: it raises \<open>OverflowError\<close> when the
  number of days of the duration is beyond 999999999 either way.
\<close>

definition timedelta :: "int \<Rightarrow> py_error + int" where
  "timedelta s =
     (if - 999999999 \<le> s div 86400 \<and> s div 86400 \<le> 999999999
      then Inr (timedelta_seconds s) else Inl OverflowError)"

subsection \<open>isoformat and fromisoformat\<close>

definition digit_char :: "nat \<Rightarrow> char" where
  "digit_char n = char_of (48 + n)"

definition is_digit :: "char \<Rightarrow> bool" where
  "is_digit c = (48 \<le> (of_char c :: nat) \<and> (of_char c :: nat) \<le> 57)"

definition digit_value :: "char \<Rightarrow> nat" where
  "digit_value c = of_char c - 48"

text \<open>\<open>pad k n\<close> is \<open>"%0kd" % n\<close> for a number of at most \<open>k\<close> digits.\<close>

fun pad :: "nat \<Rightarrow> nat \<Rightarrow> string" where
  "pad 0 n = []"
| "pad (Suc k) n = pad k (n div 10) @ [digit_char (n mod 10)]"

fun decimal :: "nat \<Rightarrow> string \<Rightarrow> nat option" where
  "decimal acc [] = Some acc"
| "decimal acc (c # cs) =
     (if is_digit c then decimal (10 * acc + digit_value c) cs else None)"

text \<open>\<open>number k s\<close> reads exactly \<open>k\<close> decimal digits from the front of \<open>s\<close>.\<close>

definition number :: "nat \<Rightarrow> string \<Rightarrow> (nat \<times> string) option" where
  "number k s =
     (if length s < k then None
      else case decimal 0 (take k s) of
             None \<Rightarrow> None
           | Some n \<Rightarrow> Some (n, drop k s))"

fun expect :: "char \<Rightarrow> string \<Rightarrow> string option" where
  "expect c [] = None"
| "expect c (x # xs) = (if x = c then Some xs else None)"

text \<open>
  \<open>datetime.isoformat()\<close> of a naive datetime: \<open>YYYY-MM-DDTHH:MM:SS\<close>, followed by
  \<open>.ffffff\<close> when the microsecond field is not zero.
\<close>

definition isoformat :: "datetime \<Rightarrow> string" where
  "isoformat d =
     pad 4 (year d) @ CHR ''-'' # pad 2 (month d) @ CHR ''-'' # pad 2 (day d) @
     CHR ''T'' # pad 2 (hour d) @ CHR '':'' # pad 2 (minute d) @ CHR '':'' # pad 2 (second d) @
     (if microsecond d = 0 then [] else CHR ''.'' # pad 6 (microsecond d))"

text \<open>
  \<open>datetime.fromisoformat\<close>, on the two layouts that \<open>isoformat\<close> writes. The library
  reads further ISO 8601 layouts as well (how many depends on the Python version); the
  model answers \<open>ValueError\<close> for them, and the statements below that depend on a
  timestamp given as text are about texts that this function reads.
\<close>

definition read_fraction :: "string \<Rightarrow> nat option" where
  "read_fraction s =
     (if s = [] then Some 0
      else case expect CHR ''.'' s of
             None \<Rightarrow> None
           | Some s1 \<Rightarrow> (case number 6 s1 of
                          None \<Rightarrow> None
                        | Some (us, s2) \<Rightarrow> if s2 = [] then Some us else None))"

definition read_fields :: "string \<Rightarrow> datetime option" where
  "read_fields s =
     Option.bind (number 4 s) (\<lambda>(y, s).
     Option.bind (expect CHR ''-'' s) (\<lambda>s.
     Option.bind (number 2 s) (\<lambda>(m, s).
     Option.bind (expect CHR ''-'' s) (\<lambda>s.
     Option.bind (number 2 s) (\<lambda>(d, s).
     Option.bind (expect CHR ''T'' s) (\<lambda>s.
     Option.bind (number 2 s) (\<lambda>(hh, s).
     Option.bind (expect CHR '':'' s) (\<lambda>s.
     Option.bind (number 2 s) (\<lambda>(mm, s).
     Option.bind (expect CHR '':'' s) (\<lambda>s.
     Option.bind (number 2 s) (\<lambda>(ss, s).
     Option.bind (read_fraction s) (\<lambda>us.
       Some \<lparr>year = y, month = m, day = d, hour = hh, minute = mm, second = ss,
             microsecond = us\<rparr>))))))))))))"

definition fromisoformat :: "string \<Rightarrow> py_error + datetime" where
  "fromisoformat s =
     (case read_fields s of
        None \<Rightarrow> Inl ValueError
      | Some d \<Rightarrow> if valid_datetime d then Inr d else Inl ValueError)"

section \<open>Session records and their JSON text\<close>

text \<open>
  \<open>OpenAIMessage\<close> of \<open>models.py\<close>. A message dictionary (\<open>msg.dict()\<close>, and what
  \<open>OpenAIMessage(**msg)\<close> reads back) has exactly the two entries \<open>role\<close> and
  \<open>content\<close>, and is identified with the message.
\<close>

record OpenAIMessage =
  role :: string
  content :: string

text \<open>
  A stored session is a Python dictionary with string keys (\<open>Dict[str, Any]\<close>): an
  association list in insertion order, with assignment \<open>AList.update\<close>, lookup
  \<open>map_of\<close> and \<open>del\<close> as \<open>AList.delete\<close>. The values are the ones the program
  handles: strings, datetimes, the list of message dictionaries, and \<open>None\<close> and integers
  as values of another type.
\<close>

datatype pyval =
  PNone | PInt int | PStr string | PDatetime datetime | PMessages "OpenAIMessage list"

type_synonym session_data = "(string \<times> pyval) list"

text \<open>
  The text that \<open>json.dumps\<close> writes is modelled by the document it denotes:
  \<open>json.loads\<close> gives that document back. \<open>json.dumps\<close> raises \<open>TypeError\<close> on a
  datetime.
\<close>

datatype json_text = Json session_data

fun is_datetime :: "pyval \<Rightarrow> bool" where
  "is_datetime (PDatetime t) = True"
| "is_datetime v = False"

definition json_dumps :: "session_data \<Rightarrow> py_error + json_text" where
  "json_dumps d =
     (if list_ex (\<lambda>kv. is_datetime (snd kv)) d then Inl TypeError else Inr (Json d))"

fun json_loads :: "json_text \<Rightarrow> session_data" where
  "json_loads (Json d) = d"

text \<open>
  \<open>if k in data: data[k] = data[k].isoformat()\<close>, one key of \<open>_serialize_session\<close>;
  a value without the method raises \<open>AttributeError\<close>.
\<close>

definition isoformat_key :: "string \<Rightarrow> session_data \<Rightarrow> py_error + session_data" where
  "isoformat_key k d =
     (case map_of d k of
        None \<Rightarrow> Inr d
      | Some (PDatetime t) \<Rightarrow> Inr (AList.update k (PStr (isoformat t)) d)
      | Some v \<Rightarrow> Inl AttributeError)"

definition serialize_session :: "session_data \<Rightarrow> py_error + json_text" where
  "serialize_session session_data =
     (case isoformat_key ''created_at'' session_data of
        Inl e \<Rightarrow> Inl e
      | Inr d1 \<Rightarrow>
          (case isoformat_key ''last_activity'' d1 of
             Inl e \<Rightarrow> Inl e
           | Inr d2 \<Rightarrow> json_dumps d2))"

text \<open>
  \<open>if k in data: data[k] = datetime.fromisoformat(data[k])\<close>, one key of
  \<open>_deserialize_session\<close>; \<open>fromisoformat\<close> raises \<open>TypeError\<close> on a value that is not
  a string.
\<close>

definition fromisoformat_key :: "string \<Rightarrow> session_data \<Rightarrow> py_error + session_data" where
  "fromisoformat_key k d =
     (case map_of d k of
        None \<Rightarrow> Inr d
      | Some (PStr x) \<Rightarrow>
          (case fromisoformat x of
             Inl e \<Rightarrow> Inl e
           | Inr t \<Rightarrow> Inr (AList.update k (PDatetime t) d))
      | Some v \<Rightarrow> Inl TypeError)"

definition deserialize_session :: "json_text \<Rightarrow> py_error + session_data" where
  "deserialize_session session_json =
     (case fromisoformat_key ''created_at'' (json_loads session_json) of
        Inl e \<Rightarrow> Inl e
      | Inr d1 \<Rightarrow> fromisoformat_key ''last_activity'' d1)"

section \<open>The durable tier\<close>

text \<open>
  The Redis server is outside the program. Its contents are a dictionary from keys to
  the time-to-live and the text last written by \<open>SETEX\<close>; under the session prefix it
  holds only texts that \<open>save_session\<close> wrote. Whether a command is answered or raises
  (\<open>ConnectionError\<close>, \<open>TimeoutError\<close>, an error reply) is decided by the
  environment, so it is an argument of every operation that sends one; a command that
  raises leaves the contents alone. Expiry of a key is an action of the server between
  two calls and is not a step of this program.
\<close>

type_synonym redis_db = "(string \<times> int \<times> json_text) list"

datatype redis_call = Answers | Raises

datatype setex_call = SetexOk | SetexFalsy | SetexRaises

definition redis_get :: "redis_call \<Rightarrow> string \<Rightarrow> redis_db \<Rightarrow> py_error + json_text option" where
  "redis_get env key db =
     (case env of
        Raises \<Rightarrow> Inl RedisError
      | Answers \<Rightarrow> Inr (map_option snd (map_of db key)))"

definition redis_setex ::
  "setex_call \<Rightarrow> string \<Rightarrow> int \<Rightarrow> json_text \<Rightarrow> redis_db \<Rightarrow> py_error + (bool \<times> redis_db)" where
  "redis_setex env key ttl v db =
     (case env of
        SetexRaises \<Rightarrow> Inl RedisError
      | SetexFalsy \<Rightarrow> Inr (False, db)
      | SetexOk \<Rightarrow> Inr (True, AList.update key (ttl, v) db))"

definition redis_delete :: "redis_call \<Rightarrow> string \<Rightarrow> redis_db \<Rightarrow> py_error + (nat \<times> redis_db)" where
  "redis_delete env key db =
     (case env of
        Raises \<Rightarrow> Inl RedisError
      | Answers \<Rightarrow>
          Inr (if map_of db key = None then 0 else 1, AList.delete key db))"

section \<open>SessionStorage\<close>

record Settings =
  session_ttl :: int

text \<open>
  The fields of \<open>SessionStorage\<close>; \<open>redis_client\<close> tells whether the attribute holds a
  client (it is \<open>None\<close> otherwise).
\<close>

record SessionStorage =
  use_redis :: bool
  redis_client :: bool
  fallback_storage :: "(string \<times> session_data) list"

definition get_redis_key :: "string \<Rightarrow> string" where
  "get_redis_key phone = ''whatsapp_session:'' @ phone"

definition get_session ::
  "redis_call \<Rightarrow> string \<Rightarrow> SessionStorage \<Rightarrow> redis_db \<Rightarrow> session_data option" where
  "get_session env phone self db =
     (if use_redis self \<and> redis_client self then
        (case redis_get env (get_redis_key phone) db of
           Inl e \<Rightarrow> map_of (fallback_storage self) phone
         | Inr None \<Rightarrow> map_of (fallback_storage self) phone
         | Inr (Some session_json) \<Rightarrow>
             (case deserialize_session session_json of
                Inl e \<Rightarrow> map_of (fallback_storage self) phone
              | Inr session_data \<Rightarrow> Some session_data))
      else map_of (fallback_storage self) phone)"

definition save_session ::
  "setex_call \<Rightarrow> Settings \<Rightarrow> string \<Rightarrow> session_data \<Rightarrow> SessionStorage \<Rightarrow> redis_db \<Rightarrow>
     bool \<times> SessionStorage \<times> redis_db" where
  "save_session env settings phone session_data self db =
     (let self1 = self\<lparr>fallback_storage :=
                    AList.update phone session_data (fallback_storage self)\<rparr>
      in if use_redis self1 \<and> redis_client self1 then
           (case serialize_session session_data of
              Inl e \<Rightarrow> (True, self1, db)
            | Inr session_json \<Rightarrow>
                (case redis_setex env (get_redis_key phone) (session_ttl settings)
                        session_json db of
                   Inl e \<Rightarrow> (True, self1, db)
                 | Inr (success, db1) \<Rightarrow>
                     if success then (True, self1, db1) else (False, self1, db1)))
         else (True, self1, db))"

definition delete_session ::
  "redis_call \<Rightarrow> string \<Rightarrow> SessionStorage \<Rightarrow> redis_db \<Rightarrow> bool \<times> SessionStorage \<times> redis_db" where
  "delete_session env phone self db =
     (let self1 = self\<lparr>fallback_storage := AList.delete phone (fallback_storage self)\<rparr>
      in if use_redis self1 \<and> redis_client self1 then
           (case redis_delete env (get_redis_key phone) db of
              Inl e \<Rightarrow> (False, self1, db)
            | Inr (deleted, db1) \<Rightarrow> (True, self1, db1))
         else (True, self1, db))"

subsection \<open>cleanup_expired_sessions\<close>

text \<open>
  The value under \<open>last_activity\<close> as the loop reads it: a string goes through
  \<open>fromisoformat\<close>, and the subtraction \<open>current_time - last_activity\<close> raises
  \<open>TypeError\<close> on a value that is not a datetime. The comparison then builds
  \<open>timedelta(seconds=settings.session_ttl)\<close>, which can raise as well.
\<close>

definition read_last_activity :: "pyval \<Rightarrow> py_error + datetime" where
  "read_last_activity v =
     (case v of
        PStr x \<Rightarrow> fromisoformat x
      | PDatetime t \<Rightarrow> Inr t
      | _ \<Rightarrow> Inl TypeError)"

text \<open>
  The first loop: the keys of the entries to remove, in iteration order. An exception
  leaves the loop at the entry that raised it.
\<close>

fun expired_sessions ::
  "datetime \<Rightarrow> int \<Rightarrow> (string \<times> session_data) list \<Rightarrow> py_error + string list" where
  "expired_sessions current_time ttl [] = Inr []"
| "expired_sessions current_time ttl ((phone, session_data) # items) =
     (case map_of session_data ''last_activity'' of
        None \<Rightarrow> expired_sessions current_time ttl items
      | Some v \<Rightarrow>
          (case read_last_activity v of
             Inl e \<Rightarrow> Inl e
           | Inr last_activity \<Rightarrow>
               (case timedelta ttl of
                  Inl e \<Rightarrow> Inl e
                | Inr limit \<Rightarrow>
                    (case expired_sessions current_time ttl items of
                       Inl e \<Rightarrow> Inl e
                     | Inr rest \<Rightarrow>
                         Inr (if datetime_sub current_time last_activity > limit
                              then phone # rest else rest)))))"

text \<open>
  The second loop: \<open>del self.fallback_storage[user_phone]\<close> and \<open>expired_count += 1\<close>
  for each key; \<open>del\<close> of a missing key raises \<open>KeyError\<close>, which ends the loop with
  the entries deleted so far gone. The result carries whether the loop ran to its end.
\<close>

fun remove_sessions ::
  "string list \<Rightarrow> (string \<times> session_data) list \<Rightarrow> nat \<Rightarrow>
     bool \<times> (string \<times> session_data) list \<times> nat" where
  "remove_sessions [] fb expired_count = (True, fb, expired_count)"
| "remove_sessions (phone # phones) fb expired_count =
     (if map_of fb phone = None then (False, fb, expired_count)
      else remove_sessions phones (AList.delete phone fb) (Suc expired_count))"

definition sweep_fallback :: "datetime \<Rightarrow> Settings \<Rightarrow> SessionStorage \<Rightarrow> nat \<times> SessionStorage" where
  "sweep_fallback current_time settings self =
     (case expired_sessions current_time (session_ttl settings) (fallback_storage self) of
        Inl e \<Rightarrow> (0, self)
      | Inr phones \<Rightarrow>
          (case remove_sessions phones (fallback_storage self) 0 of
             (finished, fb, expired_count) \<Rightarrow>
               (if finished then expired_count else 0, self\<lparr>fallback_storage := fb\<rparr>)))"

text \<open>
  Both branches of the source (durable tier in use or not) run the same two loops over
  the fallback dictionary; the function has no command for the durable tier.
\<close>

definition cleanup_expired_sessions ::
  "datetime \<Rightarrow> Settings \<Rightarrow> SessionStorage \<Rightarrow> nat \<times> SessionStorage" where
  "cleanup_expired_sessions current_time settings self =
     (if use_redis self \<and> redis_client self
      then sweep_fallback current_time settings self
      else sweep_fallback current_time settings self)"

section \<open>ChatSession\<close>

record ChatSession =
  user_phone :: string
  messages :: "OpenAIMessage list"
  created_at :: datetime
  last_activity :: datetime

text \<open>
  Every \<open>datetime.now()\<close> of the source is a reading of the clock that the caller of the
  model supplies: the functions below take the reading as an argument.
\<close>

definition add_message :: "ChatSession \<Rightarrow> string \<Rightarrow> string \<Rightarrow> datetime \<Rightarrow> ChatSession" where
  "add_message self r c now =
     self\<lparr>messages := messages self @ [\<lparr>role = r, content = c\<rparr>], last_activity := now\<rparr>"

text \<open>The slice \<open>xs[start:]\<close> of Python, for any integer \<open>start\<close>.\<close>

definition slice_from :: "int \<Rightarrow> 'a list \<Rightarrow> 'a list" where
  "slice_from start xs =
     (if start < 0 then drop (nat (int (length xs) + start)) xs else drop (nat start) xs)"

definition get_conversation_history :: "ChatSession \<Rightarrow> int \<Rightarrow> OpenAIMessage list" where
  "get_conversation_history self max_messages =
     (if int (length (messages self)) > max_messages
      then slice_from (- max_messages) (messages self)
      else messages self)"

section \<open>OpenAIService\<close>

text \<open>
  What \<open>client.chat.completions.create\<close> does is the environment's choice: it raises, or
  it returns a response whose choices carry a content each (\<open>None\<close> when the message
  has none). The client is a function of the message list it is called with; the other
  arguments of the request are constants of the source (the model name, 500 tokens, the
  temperature).
\<close>

datatype completion =
  AuthenticationError | RateLimitError | APIError | OtherError
  | Response "string option list"

text \<open>
  \<open>generate_response\<close> returns \<open>None\<close> on every exception; \<open>len(content)\<close> of a
  missing content raises \<open>TypeError\<close> inside the \<open>try\<close>.
\<close>

definition generate_response ::
  "(OpenAIMessage list \<Rightarrow> completion) \<Rightarrow> OpenAIMessage list \<Rightarrow> string option" where
  "generate_response client msgs =
     (case client msgs of
        Response (Some c # choices) \<Rightarrow> Some c
      | Response (None # choices) \<Rightarrow> None
      | Response [] \<Rightarrow> None
      | AuthenticationError \<Rightarrow> None
      | RateLimitError \<Rightarrow> None
      | APIError \<Rightarrow> None
      | OtherError \<Rightarrow> None)"

definition system_prompt :: string where
  "system_prompt =
     ''You are a helpful and friendly WhatsApp chatbot assistant.'' @ [CHR 0x0A] @
     ''        You should be conversational, concise, and helpful.'' @ [CHR 0x0A] @
     ''        Keep responses under 500 characters when possible, as this is for WhatsApp messaging.'' @ [CHR 0x0A] @
     ''        Be polite, professional, and engaging in your responses.''"

definition create_system_message :: OpenAIMessage where
  "create_system_message = \<lparr>role = ''system'', content = system_prompt\<rparr>"

section \<open>ChatService\<close>

text \<open>The dictionary that \<open>_save_session_to_storage\<close> builds from a session.\<close>

definition session_dict :: "ChatSession \<Rightarrow> session_data" where
  "session_dict session =
     [(''user_phone'', PStr (user_phone session)),
      (''messages'', PMessages (messages session)),
      (''created_at'', PDatetime (created_at session)),
      (''last_activity'', PDatetime (last_activity session))]"

definition save_session_to_storage ::
  "setex_call \<Rightarrow> Settings \<Rightarrow> ChatSession \<Rightarrow> SessionStorage \<Rightarrow> redis_db \<Rightarrow>
     SessionStorage \<times> redis_db" where
  "save_session_to_storage env settings session self db =
     snd (save_session env settings (user_phone session) (session_dict session) self db)"

text \<open>
  The session that \<open>get_or_create_session\<close> rebuilds from a stored dictionary: a missing
  key raises \<open>KeyError\<close>, and a value of another type than the field's is refused by the
  model's validation. (The validation of the library converts some other values, a
  timestamp given as text for one; the statements below are about dictionaries that hold
  the field's own type.)
\<close>

definition reconstruct_session :: "session_data \<Rightarrow> py_error + ChatSession" where
  "reconstruct_session d =
     (case map_of d ''user_phone'' of
        None \<Rightarrow> Inl KeyError
      | Some u \<Rightarrow>
     (case map_of d ''messages'' of
        None \<Rightarrow> Inl KeyError
      | Some ms \<Rightarrow>
     (case map_of d ''created_at'' of
        None \<Rightarrow> Inl KeyError
      | Some c \<Rightarrow>
     (case map_of d ''last_activity'' of
        None \<Rightarrow> Inl KeyError
      | Some l \<Rightarrow>
     (case (u, ms, c, l) of
        (PStr u', PMessages ms', PDatetime c', PDatetime l') \<Rightarrow>
          Inr \<lparr>user_phone = u', messages = ms', created_at = c', last_activity = l'\<rparr>
      | _ \<Rightarrow> Inl ValidationError)))))"

text \<open>
  The clock readings of one request, one for each \<open>datetime.now()\<close> it can reach:
  the sweep, the two default factories of a new \<open>ChatSession\<close>, and the three
  \<open>add_message\<close> calls.
\<close>

record clock =
  sweep_time :: datetime
  created_time :: datetime
  activity_time :: datetime
  system_time :: datetime
  user_time :: datetime
  assistant_time :: datetime

text \<open>The \<open>else\<close> branch of \<open>get_or_create_session\<close>: a new session is built and saved.\<close>

definition create_session ::
  "clock \<Rightarrow> setex_call \<Rightarrow> Settings \<Rightarrow> string \<Rightarrow> SessionStorage \<Rightarrow> redis_db \<Rightarrow>
     (py_error + ChatSession) \<times> SessionStorage \<times> redis_db" where
  "create_session clk setex_env settings phone self db =
     (let session0 = \<lparr>user_phone = phone, messages = [],
                       created_at = created_time clk, last_activity = activity_time clk\<rparr>;
          system_message = create_system_message;
          session = add_message session0 (role system_message) (content system_message)
                      (system_time clk);
          (self1, db1) = save_session_to_storage setex_env settings session self db
      in (Inr session, self1, db1))"

text \<open>
  \<open>if session_data:\<close> is false for \<open>None\<close> and for the empty dictionary; both lead to
  the \<open>else\<close> branch. An exception of the reconstruction leaves the function; the
  sweep before it has happened.
\<close>

definition get_or_create_session ::
  "clock \<Rightarrow> redis_call \<Rightarrow> setex_call \<Rightarrow> Settings \<Rightarrow> string \<Rightarrow> SessionStorage \<Rightarrow> redis_db \<Rightarrow>
     (py_error + ChatSession) \<times> SessionStorage \<times> redis_db" where
  "get_or_create_session clk get_env setex_env settings phone self db =
     (let self1 = snd (cleanup_expired_sessions (sweep_time clk) settings self)
      in case get_session get_env phone self1 db of
           None \<Rightarrow> create_session clk setex_env settings phone self1 db
         | Some session_data \<Rightarrow>
             if session_data = [] then create_session clk setex_env settings phone self1 db
             else (reconstruct_session session_data, self1, db))"

definition fallback_response :: string where
  "fallback_response =
     ''I'' @ [CHR 0x27] @ ''m sorry, I'' @ [CHR 0x27] @
     ''m having trouble processing your message right now. Please try again in a moment.''"

definition error_response :: string where
  "error_response =
     ''I'' @ [CHR 0x27] @ ''m sorry, something went wrong. Please try again later.''"

text \<open>
  The result of \<open>process_message\<close>: the reply, and the message list that was handed to
  \<open>generate_response\<close> (\<open>None\<close> when the call was not reached). The two tiers after
  the call are returned beside it.
\<close>

record processed =
  reply :: string
  request :: "OpenAIMessage list option"

definition process_message ::
  "clock \<Rightarrow> redis_call \<Rightarrow> setex_call \<Rightarrow> setex_call \<Rightarrow> (OpenAIMessage list \<Rightarrow> completion) \<Rightarrow>
     Settings \<Rightarrow> string \<Rightarrow> string \<Rightarrow> SessionStorage \<Rightarrow> redis_db \<Rightarrow>
     processed \<times> SessionStorage \<times> redis_db" where
  "process_message clk get_env create_env save_env client settings phone message self db =
     (case get_or_create_session clk get_env create_env settings phone self db of
        (Inl e, self1, db1) \<Rightarrow> (\<lparr>reply = error_response, request = None\<rparr>, self1, db1)
      | (Inr session0, self1, db1) \<Rightarrow>
          (let session1 = add_message session0 ''user'' message (user_time clk);
               conversation_history = get_conversation_history session1 10;
               failed = (\<lparr>reply = fallback_response, request = Some conversation_history\<rparr>,
                         self1, db1)
           in case generate_response client conversation_history of
                None \<Rightarrow> failed
              | Some ai_response \<Rightarrow>
                  if ai_response = [] then failed
                  else
                    (let session2 = add_message session1 ''assistant'' ai_response
                                      (assistant_time clk);
                         (self2, db2) =
                           save_session_to_storage save_env settings session2 self1 db1
                     in (\<lparr>reply = ai_response, request = Some conversation_history\<rparr>,
                         self2, db2))))"

text \<open>
  \<open>get_session_info\<close>: the dictionary it returns, or \<open>None\<close> when the session is absent
  or an exception was raised (\<open>KeyError\<close> on a missing key, \<open>TypeError\<close> from
  \<open>len\<close>, \<open>AttributeError\<close> from \<open>isoformat\<close>).
\<close>

record session_info =
  info_user_phone :: pyval
  message_count :: nat
  info_created_at :: string
  info_last_activity :: string
  is_active :: bool

definition py_len :: "pyval \<Rightarrow> py_error + nat" where
  "py_len v =
     (case v of
        PStr x \<Rightarrow> Inr (length x)
      | PMessages ms \<Rightarrow> Inr (length ms)
      | _ \<Rightarrow> Inl TypeError)"

definition get_session_info ::
  "datetime \<Rightarrow> redis_call \<Rightarrow> string \<Rightarrow> SessionStorage \<Rightarrow> redis_db \<Rightarrow> session_info option" where
  "get_session_info now env phone self db =
     (case get_session env phone self db of
        None \<Rightarrow> None
      | Some session_data \<Rightarrow>
          if session_data = [] then None
          else
            (case (map_of session_data ''user_phone'',
                   map_of session_data ''messages'',
                   map_of session_data ''created_at'',
                   map_of session_data ''last_activity'') of
               (Some u, Some ms, Some (PDatetime c), Some (PDatetime l)) \<Rightarrow>
                 (case py_len ms of
                    Inl e \<Rightarrow> None
                  | Inr n \<Rightarrow>
                      (case timedelta 86400 of
                         Inl e \<Rightarrow> None
                       | Inr limit \<Rightarrow>
                           Some \<lparr>info_user_phone = u, message_count = n,
                                 info_created_at = isoformat c,
                                 info_last_activity = isoformat l,
                                 is_active = (datetime_sub now l < limit)\<rparr>))
             | _ \<Rightarrow> None))"

definition clear_session ::
  "redis_call \<Rightarrow> string \<Rightarrow> SessionStorage \<Rightarrow> redis_db \<Rightarrow> bool \<times> SessionStorage \<times> redis_db" where
  "clear_session env phone self db =
     (case delete_session env phone self db of
        (success, self1, db1) \<Rightarrow> (if success then True else False, self1, db1))"

section \<open>The sweep, as the specification words it\<close>

text \<open>
  An entry is expired when it has a \<open>last_activity\<close> that reads as a time \<open>t\<close> with
  \<open>now - t\<close> strictly greater than the time-to-live, that is, when \<open>t\<close> precedes
  \<open>now - ttl\<close>. An entry without the field, or with a value that does not read as a
  time, is not expired.
\<close>

definition is_expired :: "datetime \<Rightarrow> int \<Rightarrow> session_data \<Rightarrow> bool" where
  "is_expired now ttl d =
     (case map_of d ''last_activity'' of
        None \<Rightarrow> False
      | Some v \<Rightarrow>
          (case read_last_activity v of
             Inl e \<Rightarrow> False
           | Inr t \<Rightarrow> datetime_sub now t > timedelta_seconds ttl))"

text \<open>
  A dictionary whose \<open>last_activity\<close>, when present, is a datetime or a text that
  \<open>fromisoformat\<close> reads.
\<close>

definition readable :: "session_data \<Rightarrow> bool" where
  "readable d =
     (case map_of d ''last_activity'' of
        None \<Rightarrow> True
      | Some v \<Rightarrow> succeeded (read_last_activity v))"

text \<open>
  Every datetime held in a dictionary is a datetime object, so it satisfies the invariant
  of the library.
\<close>

definition valid_timestamps :: "session_data \<Rightarrow> bool" where
  "valid_timestamps d =
     list_all (\<lambda>kv. case snd kv of PDatetime t \<Rightarrow> valid_datetime t | _ \<Rightarrow> True) d"

text \<open>
  The model adapter fails, in the words of the specification: the call raises
  (authentication, rate limit, API error, any other exception), or the response has no
  choice, or its first choice has no content or an empty one.
\<close>

fun adapter_fails :: "completion \<Rightarrow> bool" where
  "adapter_fails (Response (Some c # choices)) = (c = [])"
| "adapter_fails other = True"

text \<open>
  The session that the \<open>else\<close> branch of \<open>get_or_create_session\<close> builds: the system
  message alone, stamped by the \<open>add_message\<close> that appended it.
\<close>

definition new_session :: "clock \<Rightarrow> string \<Rightarrow> ChatSession" where
  "new_session clk phone =
     \<lparr>user_phone = phone, messages = [create_system_message],
      created_at = created_time clk, last_activity = system_time clk\<rparr>"

section \<open>Concrete states\<close>

text \<open>States and inputs at which the statements below are evaluated.\<close>

definition storage_up :: SessionStorage where
  "storage_up = \<lparr>use_redis = True, redis_client = True, fallback_storage = []\<rparr>"

definition storage_down :: SessionStorage where
  "storage_down = \<lparr>use_redis = False, redis_client = False, fallback_storage = []\<rparr>"

definition settings_default :: Settings where
  "settings_default = \<lparr>session_ttl = 86400\<rparr>"

definition noon :: datetime where
  "noon = \<lparr>year = 2024, month = 1, day = 1, hour = 12, minute = 0, second = 0,
            microsecond = 0\<rparr>"

definition two_pm :: datetime where
  "two_pm = \<lparr>year = 2024, month = 1, day = 1, hour = 14, minute = 0, second = 0,
              microsecond = 0\<rparr>"

definition clock_two_pm :: clock where
  "clock_two_pm = \<lparr>sweep_time = two_pm, created_time = two_pm, activity_time = two_pm,
      system_time = two_pm, user_time = two_pm, assistant_time = two_pm\<rparr>"

definition session_a :: ChatSession where
  "session_a = \<lparr>user_phone = ''A'', messages = [create_system_message],
                 created_at = noon, last_activity = noon\<rparr>"

definition storage_a :: SessionStorage where
  "storage_a = \<lparr>use_redis = False, redis_client = False,
                 fallback_storage = [(''A'', session_dict session_a)]\<rparr>"

definition numbered :: "nat \<Rightarrow> OpenAIMessage" where
  "numbered n = \<lparr>role = ''user'', content = pad 2 n\<rparr>"

definition session_15 :: ChatSession where
  "session_15 = \<lparr>user_phone = ''A'', messages = map numbered [1..<16],
                  created_at = noon, last_activity = noon\<rparr>"

definition storage_15 :: SessionStorage where
  "storage_15 = \<lparr>use_redis = False, redis_client = False,
                  fallback_storage = [(''A'', session_dict session_15)]\<rparr>"

definition rate_limited :: "OpenAIMessage list \<Rightarrow> completion" where
  "rate_limited msgs = RateLimitError"

definition settings_hour :: Settings where
  "settings_hour = \<lparr>session_ttl = 3600\<rparr>"

definition session_b :: ChatSession where
  "session_b = \<lparr>user_phone = ''B'', messages = [create_system_message],
                 created_at = noon, last_activity = two_pm\<rparr>"

definition storage_mixed :: SessionStorage where
  "storage_mixed = \<lparr>use_redis = True, redis_client = True,
     fallback_storage = [(''A'', session_dict session_a), (''B'', session_dict session_b),
                         (''C'', [(''user_phone'', PStr ''C'')])]\<rparr>"

definition session_a2 :: ChatSession where
  "session_a2 = \<lparr>user_phone = ''A'',
     messages = [create_system_message, \<lparr>role = ''user'', content = ''hi''\<rparr>,
                 \<lparr>role = ''assistant'', content = ''hello''\<rparr>],
     created_at = noon, last_activity = two_pm\<rparr>"

definition text_stamped :: session_data where
  "text_stamped =
     [(''user_phone'', PStr ''A''), (''messages'', PMessages []),
      (''created_at'', PStr ''2024-01-01T14:00:00''),
      (''last_activity'', PStr ''2024-01-01T14:00:00'')]"

definition storage_saved_a :: SessionStorage where
  "storage_saved_a = \<lparr>use_redis = True, redis_client = True,
                       fallback_storage = [(''A'', session_dict session_a)]\<rparr>"

definition db_saved_a :: redis_db where
  "db_saved_a =
     [(''whatsapp_session:A'', 86400,
       Json [(''user_phone'', PStr ''A''), (''messages'', PMessages [create_system_message]),
             (''created_at'', PStr (isoformat noon)),
             (''last_activity'', PStr (isoformat noon))])]"

definition clock_noon :: clock where
  "clock_noon = \<lparr>sweep_time = noon, created_time = noon, activity_time = noon,
      system_time = noon, user_time = noon, assistant_time = noon\<rparr>"

definition new_b :: ChatSession where
  "new_b = \<lparr>user_phone = ''B'', messages = [create_system_message],
             created_at = noon, last_activity = noon\<rparr>"

section \<open>The codec of the library\<close>

lemma of_char_digit_char: "n < 10 \<Longrightarrow> (of_char (digit_char n) :: nat) = 48 + n"
  by (simp add: digit_char_def)

lemma is_digit_digit_char: "n < 10 \<Longrightarrow> is_digit (digit_char n)"
  by (simp add: is_digit_def of_char_digit_char)

lemma digit_value_digit_char: "n < 10 \<Longrightarrow> digit_value (digit_char n) = n"
  by (simp add: digit_value_def of_char_digit_char)

lemma length_pad: "length (pad k n) = k"
  by (induction k arbitrary: n) simp_all

lemma decimal_append:
  "decimal acc (xs @ ys) = (case decimal acc xs of None \<Rightarrow> None | Some a \<Rightarrow> decimal a ys)"
  by (induction xs arbitrary: acc) simp_all

lemma decimal_pad: "n < 10 ^ k \<Longrightarrow> decimal acc (pad k n) = Some (acc * 10 ^ k + n)"
proof (induction k arbitrary: n acc)
  case 0
  then show ?case by simp
next
  case (Suc k)
  from Suc.prems have "n div 10 < 10 ^ k"
    by (simp add: less_mult_imp_div_less mult.commute)
  from Suc.IH [OF this]
  have "decimal acc (pad k (n div 10)) = Some (acc * 10 ^ k + n div 10)" .
  moreover have "n mod 10 < 10" by simp
  ultimately show ?case
    by (simp add: decimal_append is_digit_digit_char digit_value_digit_char algebra_simps)
qed

lemma number_pad: "n < 10 ^ k \<Longrightarrow> number k (pad k n @ rest) = Some (n, rest)"
  by (simp add: number_def length_pad decimal_pad)

lemma days_in_month_le: "m \<le> 12 \<Longrightarrow> days_in_month y m \<le> 31"
proof -
  assume "m \<le> 12"
  then have "m \<in> {0, 1, 2, 3, 4, 5, 6, 7, 8, 9, 10, 11, 12}"
    by (simp add: le_Suc_eq numeral_eq_Suc)
  then show ?thesis by (auto simp: days_in_month_def)
qed

lemma read_fraction_iso:
  "us < 1000000 \<Longrightarrow> read_fraction (if us = 0 then [] else CHR ''.'' # pad 6 us) = Some us"
  using number_pad [of us 6 "[]"]
  by (simp add: read_fraction_def)

lemma valid_datetime_bounds:
  assumes "valid_datetime d"
  shows "year d < 10 ^ 4" "month d < 10 ^ 2" "day d < 10 ^ 2" "hour d < 10 ^ 2"
    "minute d < 10 ^ 2" "second d < 10 ^ 2" "microsecond d < 1000000"
  using assms days_in_month_le [of "month d" "year d"]
  by (simp_all add: valid_datetime_def)

lemma read_fields_isoformat:
  assumes "valid_datetime d"
  shows "read_fields (isoformat d) = Some d"
proof -
  note b = valid_datetime_bounds [OF assms]
  define frac where "frac = (if microsecond d = 0 then [] else CHR ''.'' # pad 6 (microsecond d))"
  have fr: "read_fraction frac = Some (microsecond d)"
    unfolding frac_def using b(7) by (rule read_fraction_iso)
  have "isoformat d =
      pad 4 (year d) @ CHR ''-'' # pad 2 (month d) @ CHR ''-'' # pad 2 (day d) @
      CHR ''T'' # pad 2 (hour d) @ CHR '':'' # pad 2 (minute d) @ CHR '':'' #
      pad 2 (second d) @ frac"
    by (simp only: isoformat_def frac_def)
  then show ?thesis
    unfolding read_fields_def
    by (simp only: number_pad b fr Option.bind.simps prod.case expect.simps if_True simp_thms)
       simp
qed

text \<open>The library's promise: \<open>fromisoformat\<close> reads back what \<open>isoformat\<close> wrote.\<close>

lemma fromisoformat_isoformat: "valid_datetime d \<Longrightarrow> fromisoformat (isoformat d) = Inr d"
  by (simp add: fromisoformat_def read_fields_isoformat)

section \<open>save_session\<close>

text \<open>
  C3, as the code has it. \<open>save_session\<close> always stores the copy in the fallback tier.
  It returns \<open>True\<close> when the durable tier is not in use, when the serialization raises
  and when \<open>SETEX\<close> raises; it returns \<open>False\<close> in exactly one case: the durable tier
  is in use, the record was serialized, and \<open>SETEX\<close> returned a false value without
  raising. That branch of the source logs the failed save and returns \<open>False\<close>
  although the fallback copy exists.
\<close>

theorem save_session_result:
  "map_of (fallback_storage (fst (snd (save_session env settings phone s self db)))) phone
     = Some s \<and>
   fst (save_session env settings phone s self db) =
     (\<not> (use_redis self \<and> redis_client self \<and> succeeded (serialize_session s) \<and>
         env = SetexFalsy))"
  by (cases env; cases "serialize_session s")
     (simp_all add: save_session_def Let_def update_conv' redis_setex_def)

theorem save_session_result_witness:
  "map_of (fallback_storage (fst (snd (save_session SetexRaises settings_default ''u''
       [(''user_phone'', PStr ''u'')] storage_up [])))) ''u''
     = Some [(''user_phone'', PStr ''u'')] \<and>
   fst (save_session SetexRaises settings_default ''u''
       [(''user_phone'', PStr ''u'')] storage_up []) = True"
  using save_session_result [of SetexRaises settings_default "''u''"
      "[(''user_phone'', PStr ''u'')]" storage_up "[]"]
  by simp

text \<open>
  C3 as stated fails: with the durable tier in use and a \<open>SETEX\<close> that returns a false
  value, the fallback copy is stored and the save is reported as unsuccessful.
\<close>

theorem save_session_falsy_counterexample:
  "fst (save_session SetexFalsy settings_default ''u''
       [(''user_phone'', PStr ''u'')] storage_up []) = False \<and>
   map_of (fallback_storage (fst (snd (save_session SetexFalsy settings_default ''u''
       [(''user_phone'', PStr ''u'')] storage_up [])))) ''u''
     = Some [(''user_phone'', PStr ''u'')]"
  by (simp add: save_session_def storage_up_def settings_default_def serialize_session_def
        isoformat_key_def json_dumps_def redis_setex_def)

section \<open>delete_session\<close>

text \<open>
  C2 at a store that holds a record for the user in both tiers, with the durable tier
  answering. The first \<open>delete_session\<close> answers \<open>True\<close> and empties both tiers, and
  \<open>get_session\<close> then finds nothing; the second \<open>delete_session\<close>, on a store that
  holds nothing for the user in either tier, answers \<open>True\<close> again, with the durable tier
  in use and without it. The code returns \<open>True\<close> whenever no exception was raised; the
  count that \<open>DEL\<close> returns is only logged.
\<close>

theorem delete_session_missing_reports_true:
  "delete_session Answers ''A'' storage_saved_a db_saved_a = (True, storage_up, []) \<and>
   get_session Answers ''A'' storage_up [] = None \<and>
   delete_session Answers ''A'' storage_up [] = (True, storage_up, []) \<and>
   delete_session Answers ''A'' storage_down [] = (True, storage_down, [])"
  by (simp add: delete_session_def storage_up_def storage_down_def storage_saved_a_def
        db_saved_a_def redis_delete_def get_session_def redis_get_def get_redis_key_def)

section \<open>The context window\<close>

lemma two_pm_minus_noon: "to_microseconds two_pm - to_microseconds noon = 7200000000"
  by (simp add: to_microseconds_def noon_def two_pm_def toordinal_def)

lemma get_conversation_history_10:
  "get_conversation_history s 10 = drop (length (messages s) - 10) (messages s)"
proof (cases "int (length (messages s)) > 10")
  case True
  then have "nat (int (length (messages s)) + - 10) = length (messages s) - 10" by simp
  with True show ?thesis by (simp add: get_conversation_history_def slice_from_def)
next
  case False
  then show ?thesis by (simp add: get_conversation_history_def)
qed

text \<open>
  C8. Whenever \<open>process_message\<close> has loaded (or created) the session, the list handed to
  the model adapter is the session's messages with the new user message appended, cut to
  its last 10 entries in their order (all of them when there are at most 10), and the
  reply is decided by what the adapter answers to exactly that list. With 15 messages
  before the new one, the window is the 16 messages without the first 6, which are 10.
\<close>

theorem context_window_is_last_ten:
  assumes "get_or_create_session clk g c settings phone self db = (Inr session, self1, db1)"
  shows "let ms = messages session @ [\<lparr>role = ''user'', content = message\<rparr>];
             window = drop (length ms - 10) ms;
             result = fst (process_message clk g c s client settings phone message self db)
         in request result = Some window \<and>
            reply result = (case generate_response client window of
                              None \<Rightarrow> fallback_response
                            | Some r \<Rightarrow> if r = [] then fallback_response else r) \<and>
            (length (messages session) = 15 \<longrightarrow> window = drop 6 ms \<and> length window = 10)"
  using assms
  by (auto simp add: process_message_def Let_def get_conversation_history_10 add_message_def
      split: option.splits prod.splits)

lemma load_session_15:
  "get_or_create_session clock_two_pm Answers SetexOk settings_default ''A'' storage_15 []
     = (Inr session_15, storage_15, [])"
  apply (simp add: get_or_create_session_def cleanup_expired_sessions_def sweep_fallback_def
      storage_15_def session_dict_def read_last_activity_def datetime_sub_def
      timedelta_seconds_def timedelta_def get_session_def reconstruct_session_def
      settings_default_def
      clock_two_pm_def)
  apply (simp add: session_15_def two_pm_minus_noon)
  done

lemma length_session_15: "length (messages session_15) = 15"
  by (simp add: session_15_def)

theorem context_window_is_last_ten_witness:
  "get_or_create_session clock_two_pm Answers SetexOk settings_default ''A'' storage_15 []
     = (Inr session_15, storage_15, []) \<and>
   request (fst (process_message clock_two_pm Answers SetexOk SetexOk rate_limited
              settings_default ''A'' ''hi'' storage_15 []))
     = Some (drop 6 (messages session_15 @ [\<lparr>role = ''user'', content = ''hi''\<rparr>])) \<and>
   length (drop 6 (messages session_15 @ [\<lparr>role = ''user'', content = ''hi''\<rparr>])) = 10 \<and>
   reply (fst (process_message clock_two_pm Answers SetexOk SetexOk rate_limited
              settings_default ''A'' ''hi'' storage_15 [])) = fallback_response"
  using context_window_is_last_ten [OF load_session_15, of "''hi''" SetexOk rate_limited]
    length_session_15 load_session_15
  by (simp add: Let_def generate_response_def rate_limited_def)

section \<open>get_session_info\<close>

text \<open>
  C9 at a configured time-to-live of one hour and a session last active two hours before
  the query: \<open>get_session_info\<close> reports the session as active, while
  \<open>now - last_activity < session_ttl\<close> is false. The function compares with the literal
  86400 seconds and does not read the setting.
\<close>

theorem get_session_info_ignores_session_ttl:
  "get_session_info two_pm Answers ''A'' storage_a [] =
     Some \<lparr>info_user_phone = PStr ''A'', message_count = 1,
           info_created_at = isoformat noon, info_last_activity = isoformat noon,
           is_active = True\<rparr> \<and>
   timedelta (session_ttl \<lparr>session_ttl = 3600\<rparr>) = Inr 3600000000 \<and>
   (datetime_sub two_pm noon < 3600000000) = False"
  by (simp add: get_session_info_def get_session_def storage_a_def session_dict_def
        session_a_def py_len_def datetime_sub_def timedelta_seconds_def timedelta_def
        two_pm_minus_noon)

section \<open>The fallback dictionary\<close>

text \<open>
  The fallback tier is a dictionary: its keys are distinct. It starts empty, and every
  operation of the store keeps the keys distinct.
\<close>

lemma remove_sessions_keys_distinct:
  "distinct (map fst fb) \<Longrightarrow> distinct (map fst (fst (snd (remove_sessions ks fb n))))"
  by (induction ks arbitrary: fb n) (simp_all add: distinct_delete)

lemma save_session_keys_distinct:
  "distinct (map fst (fallback_storage self)) \<Longrightarrow>
     distinct (map fst (fallback_storage (fst (snd (save_session env settings phone s self db)))))"
  by (cases env; cases "serialize_session s")
     (simp_all add: save_session_def Let_def redis_setex_def distinct_update)

lemma delete_session_keys_distinct:
  "distinct (map fst (fallback_storage self)) \<Longrightarrow>
     distinct (map fst (fallback_storage (fst (snd (delete_session env phone self db)))))"
  by (cases env)
     (simp_all add: delete_session_def Let_def redis_delete_def distinct_delete)

lemma cleanup_keys_distinct:
  assumes "distinct (map fst (fallback_storage self))"
  shows "distinct (map fst (fallback_storage (snd (cleanup_expired_sessions now settings self))))"
proof (cases "expired_sessions now (session_ttl settings) (fallback_storage self)")
  case (Inl e)
  with assms show ?thesis by (simp add: cleanup_expired_sessions_def sweep_fallback_def)
next
  case (Inr ks)
  from remove_sessions_keys_distinct [OF assms, of ks 0] Inr show ?thesis
    by (auto simp add: cleanup_expired_sessions_def sweep_fallback_def split: prod.splits)
qed

section \<open>cleanup_expired_sessions\<close>

lemma expired_sessions_Inr:
  "expired_sessions now ttl fb = Inr ks \<Longrightarrow>
     ks = map fst (filter (\<lambda>kv. is_expired now ttl (snd kv)) fb)"
proof (induction fb arbitrary: ks)
  case Nil
  then show ?case by simp
next
  case (Cons kv fb)
  obtain k d where kv: "kv = (k, d)" by (cases kv)
  show ?case
  proof (cases "map_of d ''last_activity''")
    case None
    with Cons kv show ?thesis by (simp add: is_expired_def)
  next
    case (Some v)
    with Cons.prems kv obtain t limit rest where
      t: "read_last_activity v = Inr t" and
      limit: "timedelta ttl = Inr limit" and
      rest: "expired_sessions now ttl fb = Inr rest" and
      ks: "ks = (if datetime_sub now t > limit then k # rest else rest)"
      by (auto split: sum.splits)
    from limit have "limit = timedelta_seconds ttl"
      by (auto simp: timedelta_def split: if_splits)
    with Cons.IH [OF rest] kv Some t ks show ?thesis
      by (simp add: is_expired_def)
  qed
qed

lemma expired_sessions_readable:
  assumes range: "succeeded (timedelta ttl)"
  shows "list_all (\<lambda>kv. readable (snd kv)) fb \<Longrightarrow> succeeded (expired_sessions now ttl fb)"
proof (induction fb)
  case Nil
  then show ?case by simp
next
  case (Cons kv fb)
  obtain k d where kv: "kv = (k, d)" by (cases kv)
  from Cons have ih: "succeeded (expired_sessions now ttl fb)" by simp
  then obtain rest where rest: "expired_sessions now ttl fb = Inr rest"
    by (cases "expired_sessions now ttl fb") simp_all
  from range obtain limit where limit: "timedelta ttl = Inr limit"
    by (cases "timedelta ttl") simp_all
  from Cons.prems kv have "readable d" by simp
  then show ?case using kv rest limit
    by (cases "map_of d ''last_activity''")
       (auto simp: readable_def split: sum.splits)
qed

lemma remove_sessions_distinct:
  "distinct ks \<Longrightarrow> set ks \<subseteq> fst ` set fb \<Longrightarrow>
     remove_sessions ks fb n = (True, filter (\<lambda>kv. fst kv \<notin> set ks) fb, n + length ks)"
proof (induction ks arbitrary: fb n)
  case Nil
  then show ?case by simp
next
  case (Cons k ks)
  from Cons.prems have present: "map_of fb k \<noteq> None"
    by (simp add: map_of_eq_None_iff)
  have del: "AList.delete k fb = filter (\<lambda>kv. fst kv \<noteq> k) fb"
    by (auto simp: AList.delete_eq intro: filter_cong)
  have "set ks \<subseteq> fst ` set (AList.delete k fb)"
  proof
    fix x assume x: "x \<in> set ks"
    with Cons.prems have "x \<noteq> k" by auto
    moreover from x Cons.prems obtain kv where "kv \<in> set fb" "fst kv = x" by auto
    ultimately show "x \<in> fst ` set (AList.delete k fb)" by (force simp: del)
  qed
  with Cons.prems Cons.IH [of "AList.delete k fb" "Suc n"]
  have "remove_sessions ks (AList.delete k fb) (Suc n) =
          (True, filter (\<lambda>kv. fst kv \<notin> set ks) (AList.delete k fb), Suc n + length ks)"
    by simp
  with present show ?case
    by (auto simp: del intro: filter_cong)
qed

lemma filter_keys_distinct:
  assumes "distinct (map fst fb)"
  shows "filter (\<lambda>kv. fst kv \<notin> set (map fst (filter P fb))) fb = filter (\<lambda>kv. \<not> P kv) fb"
proof (rule filter_cong [OF refl])
  fix kv assume in_fb: "kv \<in> set fb"
  have "fst kv \<in> set (map fst (filter P fb)) \<longleftrightarrow> P kv"
  proof
    assume "fst kv \<in> set (map fst (filter P fb))"
    then obtain x where x: "x \<in> set fb" "P x" "fst x = fst kv" by auto
    with assms in_fb have "x = kv"
      by (meson distinct_map inj_onD)
    with x show "P kv" by simp
  next
    assume "P kv"
    with in_fb show "fst kv \<in> set (map fst (filter P fb))" by auto
  qed
  then show "(fst kv \<notin> set (map fst (filter P fb))) = (\<not> P kv)" by simp
qed

lemma sweep_fallback_Inr:
  assumes d: "distinct (map fst (fallback_storage self))"
    and ks: "expired_sessions now (session_ttl settings) (fallback_storage self) = Inr ks"
  shows "sweep_fallback now settings self =
           (length (filter (\<lambda>kv. is_expired now (session_ttl settings) (snd kv))
                      (fallback_storage self)),
            self\<lparr>fallback_storage :=
                   filter (\<lambda>kv. \<not> is_expired now (session_ttl settings) (snd kv))
                     (fallback_storage self)\<rparr>)"
proof -
  let ?P = "\<lambda>kv. is_expired now (session_ttl settings) (snd kv)"
  let ?fb = "fallback_storage self"
  have eq: "ks = map fst (filter ?P ?fb)" by (rule expired_sessions_Inr [OF ks])
  from d have "distinct ks" unfolding eq by (simp add: distinct_map_filter)
  moreover have "set ks \<subseteq> fst ` set ?fb" unfolding eq by auto
  ultimately have "remove_sessions ks ?fb 0 =
      (True, filter (\<lambda>kv. fst kv \<notin> set ks) ?fb, 0 + length ks)"
    by (rule remove_sessions_distinct)
  then have "remove_sessions ks ?fb 0 = (True, filter (\<lambda>kv. \<not> ?P kv) ?fb, length (filter ?P ?fb))"
    unfolding eq using filter_keys_distinct [OF d, of ?P] by simp
  with ks show ?thesis by (simp add: sweep_fallback_def)
qed

text \<open>
  C6. On a fallback dictionary (distinct keys) whose timestamps all read as times, and
  for a time-to-live that \<open>timedelta\<close> accepts,
  \<open>cleanup_expired_sessions\<close> returns the number of expired entries and leaves the
  fallback dictionary with exactly the entries that are not expired, each unchanged and in
  its place; the other fields of the store are as before. The function takes and returns
  no contents of the durable tier: it sends no command to it, in either branch.
\<close>

theorem cleanup_removes_exactly_expired:
  assumes "distinct (map fst (fallback_storage self))"
    and "list_all (\<lambda>kv. readable (snd kv)) (fallback_storage self)"
    and "succeeded (timedelta (session_ttl settings))"
  shows "cleanup_expired_sessions now settings self =
           (length (filter (\<lambda>kv. is_expired now (session_ttl settings) (snd kv))
                      (fallback_storage self)),
            self\<lparr>fallback_storage :=
                   filter (\<lambda>kv. \<not> is_expired now (session_ttl settings) (snd kv))
                     (fallback_storage self)\<rparr>)"
proof -
  from assms(3,2)
  have "succeeded (expired_sessions now (session_ttl settings) (fallback_storage self))"
    by (rule expired_sessions_readable)
  then obtain ks where "expired_sessions now (session_ttl settings) (fallback_storage self) = Inr ks"
    by (cases "expired_sessions now (session_ttl settings) (fallback_storage self)") simp_all
  from sweep_fallback_Inr [OF assms(1) this] show ?thesis
    by (simp add: cleanup_expired_sessions_def)
qed

text \<open>
  C10. An entry of the fallback dictionary without a \<open>last_activity\<close> field is still
  there, unchanged, after \<open>cleanup_expired_sessions\<close>, for every time-to-live, every
  current time and whatever the other entries hold; and the number returned is the number
  of entries that left the dictionary, so the entry is not counted.
\<close>

theorem entry_without_last_activity_is_kept:
  assumes d: "distinct (map fst (fallback_storage self))"
    and entry: "map_of (fallback_storage self) phone = Some session_data"
    and none: "map_of session_data ''last_activity'' = None"
  shows "map_of (fallback_storage (snd (cleanup_expired_sessions now settings self))) phone
           = Some session_data \<and>
         fst (cleanup_expired_sessions now settings self)
           + length (fallback_storage (snd (cleanup_expired_sessions now settings self)))
           = length (fallback_storage self)"
proof (cases "expired_sessions now (session_ttl settings) (fallback_storage self)")
  case (Inl e)
  with entry show ?thesis
    by (simp add: cleanup_expired_sessions_def sweep_fallback_def)
next
  case (Inr ks)
  let ?P = "\<lambda>kv. is_expired now (session_ttl settings) (snd kv)"
  from none have "\<not> is_expired now (session_ttl settings) session_data"
    by (simp add: is_expired_def)
  with map_of_filter_in [OF entry, of "\<lambda>k v. \<not> is_expired now (session_ttl settings) v"]
  have "map_of (filter (\<lambda>kv. \<not> ?P kv) (fallback_storage self)) phone = Some session_data"
    by (simp add: split_def)
  moreover have "length (filter ?P (fallback_storage self))
      + length (filter (\<lambda>kv. \<not> ?P kv) (fallback_storage self)) = length (fallback_storage self)"
    by (rule sum_length_filter_compl)
  ultimately show ?thesis
    using sweep_fallback_Inr [OF d Inr]
    by (simp add: cleanup_expired_sessions_def)
qed


lemma expired_a: "is_expired two_pm 3600 (session_dict session_a)"
  by (simp add: is_expired_def session_dict_def session_a_def read_last_activity_def
      datetime_sub_def timedelta_seconds_def two_pm_minus_noon)

lemma fresh_b: "\<not> is_expired two_pm 3600 (session_dict session_b)"
  by (simp add: is_expired_def session_dict_def session_b_def read_last_activity_def
      datetime_sub_def timedelta_seconds_def)

lemma no_field_c: "\<not> is_expired two_pm 3600 [(''user_phone'', PStr ''C'')]"
  by (simp add: is_expired_def)

lemma readable_mixed:
  "readable (session_dict session_a)" "readable (session_dict session_b)"
  "readable [(''user_phone'', PStr ''C'')]"
  by (simp_all add: readable_def session_dict_def read_last_activity_def)

theorem cleanup_removes_exactly_expired_witness:
  "distinct (map fst (fallback_storage storage_mixed)) \<and>
   list_all (\<lambda>kv. readable (snd kv)) (fallback_storage storage_mixed) \<and>
   succeeded (timedelta (session_ttl settings_hour)) \<and>
   cleanup_expired_sessions two_pm settings_hour storage_mixed =
     (1, \<lparr>use_redis = True, redis_client = True,
          fallback_storage = [(''B'', session_dict session_b),
                              (''C'', [(''user_phone'', PStr ''C'')])]\<rparr>)"
  using cleanup_removes_exactly_expired [where self = storage_mixed and now = two_pm
      and settings = settings_hour]
  by (simp add: storage_mixed_def settings_hour_def expired_a fresh_b no_field_c readable_mixed
      timedelta_def)

theorem entry_without_last_activity_is_kept_witness:
  "distinct (map fst (fallback_storage storage_mixed)) \<and>
   map_of (fallback_storage storage_mixed) ''C'' = Some [(''user_phone'', PStr ''C'')] \<and>
   map_of [(''user_phone'', PStr ''C'')] ''last_activity'' = None \<and>
   map_of (fallback_storage (snd (cleanup_expired_sessions two_pm settings_hour storage_mixed)))
      ''C'' = Some [(''user_phone'', PStr ''C'')] \<and>
   fst (cleanup_expired_sessions two_pm settings_hour storage_mixed)
     + length (fallback_storage (snd (cleanup_expired_sessions two_pm settings_hour storage_mixed)))
     = 3"
  using entry_without_last_activity_is_kept [of storage_mixed "''C''"
      "[(''user_phone'', PStr ''C'')]" two_pm settings_hour]
  by (simp add: storage_mixed_def)

section \<open>Serialization\<close>

lemma update_commute:
  "k \<noteq> k' \<Longrightarrow> k \<in> fst ` set al \<Longrightarrow>
     AList.update k v (AList.update k' v' al) = AList.update k' v' (AList.update k v al)"
  by (induction al) auto

lemma valid_timestamps_lookup:
  "valid_timestamps d \<Longrightarrow> map_of d k = Some (PDatetime t) \<Longrightarrow> valid_datetime t"
proof -
  assume v: "valid_timestamps d" and m: "map_of d k = Some (PDatetime t)"
  from m have "(k, PDatetime t) \<in> set d" by (rule map_of_SomeD)
  with v show ?thesis by (auto simp: valid_timestamps_def list_all_iff)
qed

lemma isoformat_key_cases:
  assumes "isoformat_key k d = Inr d'"
  shows "(map_of d k = None \<and> d' = d) \<or>
         (\<exists>t. map_of d k = Some (PDatetime t) \<and> d' = AList.update k (PStr (isoformat t)) d)"
  using assms by (auto simp: isoformat_key_def split: option.splits pyval.splits)

lemma fromisoformat_key_undo:
  assumes "isoformat_key k d = Inr d'" and "valid_timestamps d"
  shows "fromisoformat_key k d' = Inr d"
proof -
  from isoformat_key_cases [OF assms(1)] show ?thesis
  proof (elim disjE conjE exE)
    assume "map_of d k = None" "d' = d"
    then show ?thesis by (simp add: fromisoformat_key_def)
  next
    fix t assume m: "map_of d k = Some (PDatetime t)"
      and d': "d' = AList.update k (PStr (isoformat t)) d"
    from valid_timestamps_lookup [OF assms(2) m] have "fromisoformat (isoformat t) = Inr t"
      by (rule fromisoformat_isoformat)
    with m d' show ?thesis
      by (simp add: fromisoformat_key_def update_conv' update_triv)
  qed
qed

lemma valid_timestamps_update:
  "valid_timestamps d \<Longrightarrow> valid_timestamps (AList.update k (PStr x) d)"
  by (induction d) (auto simp: valid_timestamps_def)

lemma isoformat_key_valid:
  "isoformat_key k d = Inr d' \<Longrightarrow> valid_timestamps d \<Longrightarrow> valid_timestamps d'"
  using isoformat_key_cases [of k d d'] by (auto simp: valid_timestamps_update)

lemma isoformat_key_commute:
  assumes "isoformat_key k d = Inr d1" and "isoformat_key k' d1 = Inr d2" and "k \<noteq> k'"
  shows "\<exists>x. isoformat_key k' d = Inr x \<and> isoformat_key k x = Inr d2"
proof -
  from isoformat_key_cases [OF assms(1)] show ?thesis
  proof (elim disjE conjE exE)
    assume "map_of d k = None" "d1 = d"
    with assms(2,3) isoformat_key_cases [OF assms(2)] show ?thesis
      by (auto simp: isoformat_key_def update_conv')
  next
    fix t assume m: "map_of d k = Some (PDatetime t)"
      and d1: "d1 = AList.update k (PStr (isoformat t)) d"
    from m have present: "k \<in> fst ` set d"
      by (metis map_of_eq_None_iff option.distinct(1))
    from isoformat_key_cases [OF assms(2)] show ?thesis
    proof (elim disjE conjE exE)
      assume "map_of d1 k' = None" "d2 = d1"
      with m d1 assms(3) show ?thesis
        by (auto simp: isoformat_key_def update_conv')
    next
      fix t' assume m': "map_of d1 k' = Some (PDatetime t')"
        and d2: "d2 = AList.update k' (PStr (isoformat t')) d1"
      from m' d1 assms(3) have "map_of d k' = Some (PDatetime t')"
        by (simp add: update_conv')
      with m d1 d2 assms(3) update_commute [OF assms(3) present] show ?thesis
        by (auto simp: isoformat_key_def update_conv')
    qed
  qed
qed

lemma json_dumps_Inr: "json_dumps d = Inr j \<Longrightarrow> j = Json d"
  by (auto simp: json_dumps_def split: if_splits)

lemma deserialize_serialize:
  assumes ser: "serialize_session s = Inr j" and valid: "valid_timestamps s"
  shows "deserialize_session j = Inr s"
proof -
  from ser obtain d1 d2 where
    d1: "isoformat_key ''created_at'' s = Inr d1" and
    d2: "isoformat_key ''last_activity'' d1 = Inr d2" and
    j: "j = Json d2"
    by (auto simp: serialize_session_def split: sum.splits dest: json_dumps_Inr)
  from isoformat_key_commute [OF d1 d2] obtain x where
    x: "isoformat_key ''last_activity'' s = Inr x" and
    x2: "isoformat_key ''created_at'' x = Inr d2"
    by auto
  from isoformat_key_valid [OF x valid] have "valid_timestamps x" .
  with x2 have "fromisoformat_key ''created_at'' d2 = Inr x"
    by (rule fromisoformat_key_undo)
  moreover from x valid have "fromisoformat_key ''last_activity'' x = Inr s"
    by (rule fromisoformat_key_undo)
  ultimately show ?thesis
    by (simp add: deserialize_session_def j)
qed

lemma serialize_session_dict:
  "serialize_session (session_dict session) =
     Inr (Json [(''user_phone'', PStr (user_phone session)),
                (''messages'', PMessages (messages session)),
                (''created_at'', PStr (isoformat (created_at session))),
                (''last_activity'', PStr (isoformat (last_activity session)))])"
  by (simp add: serialize_session_def session_dict_def isoformat_key_def json_dumps_def)

section \<open>save_session followed by get_session\<close>

text \<open>
  C7. With the durable tier in use and answering, \<open>save_session\<close> of a record that
  serializes (every dictionary that \<open>_save_session_to_storage\<close> builds does, see
  \<open>serialize_session_dict\<close>) returns \<open>True\<close>, and the \<open>get_session\<close> that follows
  returns the record: the text written to the durable tier, with \<open>created_at\<close> and
  \<open>last_activity\<close> in ISO format, deserializes to a dictionary equal to the one saved.
\<close>

theorem save_then_get_round_trip:
  assumes up: "use_redis self" "redis_client self"
    and ser: "succeeded (serialize_session s)"
    and valid: "valid_timestamps s"
  shows "fst (save_session SetexOk settings phone s self db) = True \<and>
         get_session Answers phone
           (fst (snd (save_session SetexOk settings phone s self db)))
           (snd (snd (save_session SetexOk settings phone s self db))) = Some s \<and>
         (case serialize_session s of
            Inl e \<Rightarrow> False
          | Inr session_json \<Rightarrow> deserialize_session session_json = Inr s)"
proof -
  from ser obtain j where j: "serialize_session s = Inr j"
    by (cases "serialize_session s") simp_all
  from deserialize_serialize [OF j valid] have rt: "deserialize_session j = Inr s" .
  with up j show ?thesis
    by (simp add: save_session_def get_session_def redis_setex_def redis_get_def update_conv')
qed

lemma valid_noon: "valid_datetime noon"
  by (simp add: valid_datetime_def noon_def days_in_month_def)

lemma valid_timestamps_session_dict:
  "valid_timestamps (session_dict session) =
     (valid_datetime (created_at session) \<and> valid_datetime (last_activity session))"
  by (simp add: valid_timestamps_def session_dict_def)

lemma valid_session_a: "valid_timestamps (session_dict session_a)"
  by (simp add: valid_timestamps_session_dict session_a_def valid_noon)

theorem save_then_get_round_trip_witness:
  "use_redis storage_up \<and> redis_client storage_up \<and>
   succeeded (serialize_session (session_dict session_a)) \<and>
   valid_timestamps (session_dict session_a) \<and>
   fst (save_session SetexOk settings_default ''A'' (session_dict session_a) storage_up []) = True \<and>
   get_session Answers ''A''
     (fst (snd (save_session SetexOk settings_default ''A'' (session_dict session_a) storage_up [])))
     (snd (snd (save_session SetexOk settings_default ''A'' (session_dict session_a) storage_up [])))
     = Some (session_dict session_a)"
  using save_then_get_round_trip [of storage_up "session_dict session_a" settings_default "''A''" "[]"]
    valid_session_a
  by (simp add: serialize_session_dict storage_up_def)


lemma saved_a:
  "save_session SetexOk settings_default ''A'' (session_dict session_a) storage_up []
     = (True, storage_saved_a, db_saved_a)"
  by (simp add: save_session_def serialize_session_dict redis_setex_def storage_up_def
      storage_saved_a_def db_saved_a_def get_redis_key_def settings_default_def session_a_def)

lemma deserialize_saved_a:
  "deserialize_session (Json [(''user_phone'', PStr ''A''),
       (''messages'', PMessages [create_system_message]),
       (''created_at'', PStr (isoformat noon)), (''last_activity'', PStr (isoformat noon))])
     = Inr (session_dict session_a)"
  using deserialize_serialize [OF serialize_session_dict valid_session_a]
  by (simp add: session_a_def)

text \<open>
  C1, as the code has it. When the write did not reach the durable tier (the tier is not
  in use, the serialization raised, or \<open>SETEX\<close> raised or returned a false value), the
  durable tier is as before and the record is in the fallback tier. The \<open>get_session\<close>
  that follows never reports the session absent. It returns the record when the durable
  tier is not consulted or raises, when it holds nothing under the user's key, and when
  what it holds does not deserialize; when it answers with an entry that deserializes
  (one written earlier, since this write never reached it), that entry is returned.
\<close>

theorem failed_write_is_served_from_fallback:
  assumes failed: "\<not> (use_redis self \<and> redis_client self \<and>
                       succeeded (serialize_session s) \<and> env = SetexOk)"
  shows "let self1 = fst (snd (save_session env settings phone s self db));
             db1 = snd (snd (save_session env settings phone s self db));
             consulted = (use_redis self \<and> redis_client self \<and> get_env = Answers);
             entry = map_of db (get_redis_key phone)
         in db1 = db \<and>
            get_session get_env phone self1 db1 \<noteq> None \<and>
            (\<not> consulted \<or> entry = None \<longrightarrow> get_session get_env phone self1 db1 = Some s) \<and>
            (consulted \<and> entry = Some (ttl, j) \<and> \<not> succeeded (deserialize_session j)
               \<longrightarrow> get_session get_env phone self1 db1 = Some s) \<and>
            (consulted \<and> entry = Some (ttl, j) \<and> deserialize_session j = Inr stale
               \<longrightarrow> get_session get_env phone self1 db1 = Some stale)"
  using failed
  by (cases env; cases get_env; cases "serialize_session s")
     (auto simp add: save_session_def get_session_def redis_setex_def redis_get_def
        update_conv' Let_def split: sum.splits option.splits)

theorem failed_write_is_served_from_fallback_witness:
  "\<not> (use_redis storage_saved_a \<and> redis_client storage_saved_a \<and>
       succeeded (serialize_session (session_dict session_a2)) \<and> SetexRaises = SetexOk) \<and>
   get_session Raises ''A''
     (fst (snd (save_session SetexRaises settings_default ''A'' (session_dict session_a2)
                  storage_saved_a db_saved_a)))
     (snd (snd (save_session SetexRaises settings_default ''A'' (session_dict session_a2)
                  storage_saved_a db_saved_a)))
     = Some (session_dict session_a2)"
  using failed_write_is_served_from_fallback [of storage_saved_a "session_dict session_a2"
      SetexRaises settings_default "''A''" db_saved_a Raises]
  by (auto simp add: Let_def)

text \<open>
  C1 as stated fails. A first save reaches both tiers. A second save of a newer record
  for the same user meets a \<open>SETEX\<close> that raises; the durable tier then answers the
  read, and \<open>get_session\<close> returns the older record. The same happens when the second
  record does not serialize (its timestamps are already text, so \<open>isoformat\<close> raises
  \<open>AttributeError\<close>) while the durable tier answers every command.
\<close>

theorem stale_durable_entry_counterexample:
  "save_session SetexOk settings_default ''A'' (session_dict session_a) storage_up []
     = (True, storage_saved_a, db_saved_a) \<and>
   get_session Answers ''A''
     (fst (snd (save_session SetexRaises settings_default ''A'' (session_dict session_a2)
                  storage_saved_a db_saved_a)))
     (snd (snd (save_session SetexRaises settings_default ''A'' (session_dict session_a2)
                  storage_saved_a db_saved_a)))
     = Some (session_dict session_a) \<and>
   session_dict session_a \<noteq> session_dict session_a2 \<and>
   serialize_session text_stamped = Inl AttributeError \<and>
   get_session Answers ''A''
     (fst (snd (save_session SetexOk settings_default ''A'' text_stamped
                  storage_saved_a db_saved_a)))
     (snd (snd (save_session SetexOk settings_default ''A'' text_stamped
                  storage_saved_a db_saved_a)))
     = Some (session_dict session_a) \<and>
   session_dict session_a \<noteq> text_stamped"
proof -
  have ser: "serialize_session text_stamped = Inl AttributeError"
    by (simp add: serialize_session_def isoformat_key_def text_stamped_def)
  have "save_session SetexRaises settings_default ''A'' (session_dict session_a2)
          storage_saved_a db_saved_a
        = (True, storage_saved_a\<lparr>fallback_storage := [(''A'', session_dict session_a2)]\<rparr>,
           db_saved_a)"
    by (simp add: save_session_def serialize_session_dict redis_setex_def storage_saved_a_def)
  moreover have "save_session SetexOk settings_default ''A'' text_stamped
          storage_saved_a db_saved_a
        = (True, storage_saved_a\<lparr>fallback_storage := [(''A'', text_stamped)]\<rparr>, db_saved_a)"
    by (simp add: save_session_def ser storage_saved_a_def)
  moreover have "\<And>fb. get_session Answers ''A'' (storage_saved_a\<lparr>fallback_storage := fb\<rparr>)
      db_saved_a = Some (session_dict session_a)"
    by (simp add: get_session_def redis_get_def storage_saved_a_def get_redis_key_def
        db_saved_a_def deserialize_saved_a)
  moreover have "session_dict session_a \<noteq> session_dict session_a2"
    by (simp add: session_dict_def session_a_def session_a2_def)
  moreover have "session_dict session_a \<noteq> text_stamped"
    by (simp add: session_dict_def session_a_def text_stamped_def)
  ultimately show ?thesis
    using saved_a ser by simp
qed

section \<open>get_or_create_session\<close>

lemma remove_sessions_lookup:
  "k \<notin> set ks \<Longrightarrow> map_of (fst (snd (remove_sessions ks fb n))) k = map_of fb k"
  by (induction ks arbitrary: fb n) (auto simp: delete_conv')

lemma remove_sessions_absent:
  "map_of fb k = None \<Longrightarrow> map_of (fst (snd (remove_sessions ks fb n))) k = None"
  by (induction ks arbitrary: fb n) (auto simp: delete_conv')

lemma cleanup_fields:
  "use_redis (snd (cleanup_expired_sessions now settings self)) = use_redis self"
  "redis_client (snd (cleanup_expired_sessions now settings self)) = redis_client self"
  by (simp_all add: cleanup_expired_sessions_def sweep_fallback_def split: sum.splits prod.splits)

lemma cleanup_absent:
  assumes absent: "map_of (fallback_storage self) k = None"
  shows "map_of (fallback_storage (snd (cleanup_expired_sessions now settings self))) k = None"
proof (cases "expired_sessions now (session_ttl settings) (fallback_storage self)")
  case (Inl e)
  with absent show ?thesis by (simp add: cleanup_expired_sessions_def sweep_fallback_def)
next
  case (Inr ks)
  from remove_sessions_absent [OF absent, of ks 0] Inr show ?thesis
    by (auto simp add: cleanup_expired_sessions_def sweep_fallback_def split: prod.splits)
qed

lemma cleanup_keeps:
  assumes "\<And>d. (k, d) \<in> set (fallback_storage self) \<Longrightarrow> \<not> is_expired now (session_ttl settings) d"
  shows "map_of (fallback_storage (snd (cleanup_expired_sessions now settings self))) k
           = map_of (fallback_storage self) k"
proof (cases "expired_sessions now (session_ttl settings) (fallback_storage self)")
  case (Inl e)
  then show ?thesis by (simp add: cleanup_expired_sessions_def sweep_fallback_def)
next
  case (Inr ks)
  from expired_sessions_Inr [OF Inr] assms have "k \<notin> set ks" by auto
  from remove_sessions_lookup [OF this, of "fallback_storage self" 0] Inr show ?thesis
    by (auto simp add: cleanup_expired_sessions_def sweep_fallback_def split: prod.splits)
qed

lemma update_absent: "k \<notin> fst ` set al \<Longrightarrow> AList.update k v al = al @ [(k, v)]"
  by (induction al) auto

lemma is_expired_session_dict:
  "is_expired now ttl (session_dict session) =
     (datetime_sub now (last_activity session) > timedelta_seconds ttl)"
  by (simp add: is_expired_def session_dict_def read_last_activity_def)

lemma reconstruct_session_dict: "reconstruct_session (session_dict session) = Inr session"
  by (simp add: reconstruct_session_def session_dict_def)

text \<open>
  When the fallback tier holds the record of a user and the durable tier holds its
  serialization or nothing under the user's key, every read returns the record.
\<close>

lemma get_session_consistent:
  assumes fb: "map_of (fallback_storage st) phone = Some (session_dict session)"
    and db: "map_of db (get_redis_key phone) = None \<or>
             (\<exists>ttl j. map_of db (get_redis_key phone) = Some (ttl, j) \<and>
                      serialize_session (session_dict session) = Inr j)"
    and valid: "valid_timestamps (session_dict session)"
  shows "get_session g phone st db = Some (session_dict session)"
proof (cases "use_redis st \<and> redis_client st \<and> g = Answers")
  case False
  with fb show ?thesis
    by (cases g) (auto simp: get_session_def redis_get_def)
next
  case True
  from db show ?thesis
  proof
    assume "map_of db (get_redis_key phone) = None"
    with True fb show ?thesis by (simp add: get_session_def redis_get_def)
  next
    assume "\<exists>ttl j. map_of db (get_redis_key phone) = Some (ttl, j) \<and>
                      serialize_session (session_dict session) = Inr j"
    then obtain ttl j where e: "map_of db (get_redis_key phone) = Some (ttl, j)"
      and j: "serialize_session (session_dict session) = Inr j" by auto
    from deserialize_serialize [OF j valid] e True show ?thesis
      by (simp add: get_session_def redis_get_def)
  qed
qed

lemma save_session_to_storage_tiers:
  "map_of (fallback_storage (fst (save_session_to_storage env settings session self db)))
      (user_phone session) = Some (session_dict session) \<and>
   use_redis (fst (save_session_to_storage env settings session self db)) = use_redis self \<and>
   redis_client (fst (save_session_to_storage env settings session self db)) = redis_client self \<and>
   (snd (save_session_to_storage env settings session self db) = db \<or>
    (\<exists>j. serialize_session (session_dict session) = Inr j \<and>
         snd (save_session_to_storage env settings session self db) =
           AList.update (get_redis_key (user_phone session)) (session_ttl settings, j) db))"
  by (cases env)
     (auto simp add: save_session_to_storage_def save_session_def redis_setex_def update_conv'
        serialize_session_dict Let_def)










lemma create_session_result:
  "fst (create_session clk env settings phone self db) = Inr (new_session clk phone) \<and>
   snd (create_session clk env settings phone self db) =
     save_session_to_storage env settings (new_session clk phone) self db"
  by (simp add: create_session_def new_session_def add_message_def create_system_message_def
      Let_def split: prod.splits)

lemma first_call:
  assumes fb: "map_of (fallback_storage self) phone = None"
    and db: "map_of db (get_redis_key phone) = None"
  shows "get_or_create_session clk g c settings phone self db =
           (Inr (new_session clk phone),
            save_session_to_storage c settings (new_session clk phone)
              (snd (cleanup_expired_sessions (sweep_time clk) settings self)) db)"
proof -
  let ?self1 = "snd (cleanup_expired_sessions (sweep_time clk) settings self)"
  from cleanup_absent [OF fb] have "map_of (fallback_storage ?self1) phone = None" .
  with db have "get_session g phone ?self1 db = None"
    by (cases g) (auto simp: get_session_def redis_get_def)
  then show ?thesis
    using create_session_result [of clk c settings phone ?self1 db]
    by (simp add: get_or_create_session_def Let_def prod_eq_iff)
qed

lemma tiers_after_create:
  assumes db: "map_of db (get_redis_key phone) = None"
  shows "let r = save_session_to_storage c settings (new_session clk phone) self db
         in map_of (fallback_storage (fst r)) phone = Some (session_dict (new_session clk phone)) \<and>
            (map_of (snd r) (get_redis_key phone) = None \<or>
             (\<exists>ttl j. map_of (snd r) (get_redis_key phone) = Some (ttl, j) \<and>
                serialize_session (session_dict (new_session clk phone)) = Inr j))"
proof -
  have u: "user_phone (new_session clk phone) = phone" by (simp add: new_session_def)
  from save_session_to_storage_tiers [of c settings "new_session clk phone" self db] db
  show ?thesis unfolding Let_def u
    by (auto simp: update_conv')
qed


lemma save_session_to_storage_fallback:
  "fallback_storage (fst (save_session_to_storage env settings session self db)) =
     AList.update (user_phone session) (session_dict session) (fallback_storage self)"
  by (cases env)
     (auto simp add: save_session_to_storage_def save_session_def redis_setex_def
        serialize_session_dict Let_def)

lemma only_entry:
  assumes "map_of fb k = None" and "(k, x) \<in> set (AList.update k v fb)"
  shows "x = v"
proof -
  from assms(1) have "k \<notin> fst ` set fb" by (simp add: map_of_eq_None_iff)
  with assms(2) show ?thesis by (force simp: update_absent)
qed

lemma second_call:
  assumes fb: "map_of fb0 phone = None"
    and st: "fallback_storage st = AList.update phone (session_dict session) fb0"
    and db: "map_of db (get_redis_key phone) = None \<or>
             (\<exists>ttl j. map_of db (get_redis_key phone) = Some (ttl, j) \<and>
                      serialize_session (session_dict session) = Inr j)"
    and valid: "valid_timestamps (session_dict session)"
    and live: "\<not> datetime_sub (sweep_time clk) (last_activity session)
                   > timedelta_seconds (session_ttl settings)"
  shows "fst (get_or_create_session clk g c settings phone st db) = Inr session \<and>
         snd (snd (get_or_create_session clk g c settings phone st db)) = db \<and>
         get_session g' phone (fst (snd (get_or_create_session clk g c settings phone st db))) db
           = Some (session_dict session)"
proof -
  let ?st1 = "snd (cleanup_expired_sessions (sweep_time clk) settings st)"
  have fresh: "\<And>d. (phone, d) \<in> set (fallback_storage st) \<Longrightarrow>
          \<not> is_expired (sweep_time clk) (session_ttl settings) d"
  proof -
    fix d assume "(phone, d) \<in> set (fallback_storage st)"
    with only_entry [OF fb] st have "d = session_dict session" by simp
    with live show "\<not> is_expired (sweep_time clk) (session_ttl settings) d"
      by (simp add: is_expired_session_dict)
  qed
  have "map_of (fallback_storage ?st1) phone = map_of (fallback_storage st) phone"
    by (rule cleanup_keeps) (rule fresh)
  with st have kept: "map_of (fallback_storage ?st1) phone = Some (session_dict session)"
    by (simp add: update_conv')
  have stored: "\<And>g. get_session g phone ?st1 db = Some (session_dict session)"
    using kept db valid by (rule get_session_consistent)
  have ne: "session_dict session \<noteq> []" by (simp add: session_dict_def)
  from stored [of g] ne have
    "get_or_create_session clk g c settings phone st db = (Inr session, ?st1, db)"
    by (simp add: get_or_create_session_def Let_def reconstruct_session_dict)
  with stored [of g'] show ?thesis by simp
qed

text \<open>
  C5. For a user with no entry in either tier, \<open>get_or_create_session\<close> returns a
  session whose only message is the system message (role \<open>system\<close>); the
  \<open>get_session\<close> that follows returns the dictionary of that session; and a second
  \<open>get_or_create_session\<close>, whose sweep runs before the session has expired, returns the
  same session, writes nothing to the durable tier, and leaves the stored record as it
  was: no second system message. This holds whatever the durable tier does at each of
  the calls (first read, write, later reads).
\<close>

theorem creation_is_idempotent:
  assumes fb: "map_of (fallback_storage self) phone = None"
    and db: "map_of db (get_redis_key phone) = None"
    and valid: "valid_datetime (created_time clk)" "valid_datetime (system_time clk)"
    and live: "\<not> datetime_sub (sweep_time clk2) (system_time clk)
                   > timedelta_seconds (session_ttl settings)"
  shows "let session = \<lparr>user_phone = phone, messages = [create_system_message],
                         created_at = created_time clk, last_activity = system_time clk\<rparr>;
             first = get_or_create_session clk g c settings phone self db;
             self1 = fst (snd first);
             db1 = snd (snd first);
             second = get_or_create_session clk2 g2 c2 settings phone self1 db1
         in fst first = Inr session \<and>
            role create_system_message = ''system'' \<and>
            get_session g2 phone self1 db1 = Some (session_dict session) \<and>
            fst second = Inr session \<and>
            snd (snd second) = db1 \<and>
            get_session g3 phone (fst (snd second)) (snd (snd second))
              = Some (session_dict session)"
proof -
  let ?session = "new_session clk phone"
  let ?self0 = "snd (cleanup_expired_sessions (sweep_time clk) settings self)"
  let ?r = "save_session_to_storage c settings ?session ?self0 db"
  have u: "user_phone ?session = phone" by (simp add: new_session_def)
  have first: "get_or_create_session clk g c settings phone self db = (Inr ?session, ?r)"
    by (rule first_call [OF fb db])
  from tiers_after_create [OF db, of c settings clk ?self0]
  have fb1: "map_of (fallback_storage (fst ?r)) phone = Some (session_dict ?session)"
    and db1: "map_of (snd ?r) (get_redis_key phone) = None \<or>
             (\<exists>ttl j. map_of (snd ?r) (get_redis_key phone) = Some (ttl, j) \<and>
                serialize_session (session_dict ?session) = Inr j)"
    by (simp_all add: Let_def)
  from valid have v: "valid_timestamps (session_dict ?session)"
    by (simp add: valid_timestamps_session_dict new_session_def)
  have get1: "get_session g2 phone (fst ?r) (snd ?r) = Some (session_dict ?session)"
    using fb1 db1 v by (rule get_session_consistent)
  have absent0: "map_of (fallback_storage ?self0) phone = None"
    by (rule cleanup_absent [OF fb])
  have st: "fallback_storage (fst ?r) =
      AList.update phone (session_dict ?session) (fallback_storage ?self0)"
    using save_session_to_storage_fallback [of c settings ?session ?self0 db] u by simp
  from live have live': "\<not> datetime_sub (sweep_time clk2) (last_activity ?session)
                   > timedelta_seconds (session_ttl settings)"
    by (simp add: new_session_def)
  note second = second_call [OF absent0 st db1 v live', of g2 c2 g3]
  show ?thesis
    using first get1 second
    by (simp add: Let_def new_session_def create_system_message_def)
qed


lemma noon_live: "\<not> datetime_sub two_pm noon > timedelta_seconds 86400"
  by (simp add: datetime_sub_def timedelta_seconds_def two_pm_minus_noon)

theorem creation_is_idempotent_witness:
  "map_of (fallback_storage storage_down) ''A'' = None \<and>
   map_of ([] :: redis_db) (get_redis_key ''A'') = None \<and>
   valid_datetime noon \<and>
   \<not> datetime_sub two_pm noon > timedelta_seconds (session_ttl settings_default) \<and>
   fst (get_or_create_session clock_noon Answers SetexOk settings_default ''A''
          storage_down []) = Inr session_a \<and>
   fst (get_or_create_session clock_two_pm Answers SetexOk settings_default ''A''
          (fst (snd (get_or_create_session clock_noon Answers SetexOk settings_default ''A''
                       storage_down [])))
          (snd (snd (get_or_create_session clock_noon Answers SetexOk settings_default ''A''
                       storage_down [])))) = Inr session_a"
  using creation_is_idempotent [where self = storage_down and phone = "''A''" and db = "[]"
      and clk = clock_noon and ?clk2.0 = clock_two_pm and settings = settings_default
      and g = Answers and c = SetexOk and ?g2.0 = Answers and ?c2.0 = SetexOk
      and ?g3.0 = Answers]
    valid_noon noon_live
  by (simp add: Let_def storage_down_def clock_noon_def clock_two_pm_def session_a_def
      settings_default_def)

section \<open>process_message when the adapter fails\<close>

lemma generate_response_fails:
  "adapter_fails (client msgs) \<Longrightarrow>
     generate_response client msgs = None \<or> generate_response client msgs = Some []"
  by (cases "client msgs" rule: adapter_fails.cases) (simp_all add: generate_response_def)

text \<open>
  C4, as the code has it. When the session was loaded or created and the adapter fails
  on the window, \<open>process_message\<close> returns the fixed fallback apology, and both tiers
  are exactly as \<open>get_or_create_session\<close> left them: the failed turn is not saved, so
  the stored session has neither the user message of this turn nor a new assistant
  message.
\<close>

theorem failed_turn_persists_nothing:
  assumes load: "get_or_create_session clk g c settings phone self db = (Inr session, self1, db1)"
    and fail: "adapter_fails (client (get_conversation_history
                 (add_message session ''user'' message (user_time clk)) 10))"
  shows "process_message clk g c s client settings phone message self db =
           (\<lparr>reply = fallback_response,
             request = Some (get_conversation_history
                 (add_message session ''user'' message (user_time clk)) 10)\<rparr>,
            self1, db1)"
  using load generate_response_fails [of client "get_conversation_history
                 (add_message session ''user'' message (user_time clk)) 10"] fail
  by (auto simp add: process_message_def Let_def)

lemma first_b:
  "get_or_create_session clock_noon Answers SetexOk settings_default ''B'' storage_down []
     = (Inr new_b, storage_down\<lparr>fallback_storage := [(''B'', session_dict new_b)]\<rparr>, [])"
  by (simp add: get_or_create_session_def cleanup_expired_sessions_def sweep_fallback_def
      storage_down_def get_session_def create_session_def add_message_def Let_def
      create_system_message_def save_session_to_storage_def save_session_def new_b_def
      clock_noon_def)

theorem failed_turn_persists_nothing_witness:
  "get_or_create_session clock_noon Answers SetexOk settings_default ''B'' storage_down []
     = (Inr new_b, storage_down\<lparr>fallback_storage := [(''B'', session_dict new_b)]\<rparr>, []) \<and>
   adapter_fails (rate_limited (get_conversation_history
                 (add_message new_b ''user'' ''hi'' (user_time clock_noon)) 10)) \<and>
   process_message clock_noon Answers SetexOk SetexOk rate_limited settings_default ''B'' ''hi''
       storage_down [] =
     (\<lparr>reply = fallback_response,
       request = Some (get_conversation_history
                 (add_message new_b ''user'' ''hi'' (user_time clock_noon)) 10)\<rparr>,
      storage_down\<lparr>fallback_storage := [(''B'', session_dict new_b)]\<rparr>, [])"
  using failed_turn_persists_nothing [OF first_b, of rate_limited "''hi''" SetexOk] first_b
  by (simp add: rate_limited_def)

text \<open>
  C4 as stated fails: for a new user \<open>B\<close>, the message \<open>hi\<close> and a rate-limit failure,
  the reply is the fallback apology and the stored session holds the system message
  only; the user message \<open>hi\<close> is not in it.
\<close>

theorem failed_turn_drops_user_message_counterexample:
  "reply (fst (process_message clock_noon Answers SetexOk SetexOk rate_limited
                 settings_default ''B'' ''hi'' storage_down [])) = fallback_response \<and>
   get_session Answers ''B''
     (fst (snd (process_message clock_noon Answers SetexOk SetexOk rate_limited
                  settings_default ''B'' ''hi'' storage_down [])))
     (snd (snd (process_message clock_noon Answers SetexOk SetexOk rate_limited
                  settings_default ''B'' ''hi'' storage_down [])))
     = Some (session_dict new_b) \<and>
   messages new_b = [create_system_message] \<and>
   \<lparr>role = ''user'', content = ''hi''\<rparr> \<notin> set (messages new_b)"
proof -
  have "process_message clock_noon Answers SetexOk SetexOk rate_limited settings_default
          ''B'' ''hi'' storage_down [] =
     (\<lparr>reply = fallback_response,
       request = Some (get_conversation_history
                 (add_message new_b ''user'' ''hi'' (user_time clock_noon)) 10)\<rparr>,
      storage_down\<lparr>fallback_storage := [(''B'', session_dict new_b)]\<rparr>, [])"
    by (simp add: process_message_def first_b Let_def generate_response_def rate_limited_def)
  then show ?thesis
    by (simp add: get_session_def storage_down_def new_b_def create_system_message_def)
qed

end
